theory Spec2Isabelle
  imports Complex_Main
begin

section \<open>LOV connectivity search: scoring and ranking pipeline of \<^verbatim>\<open>src/App.jsx\<close>\<close>

text \<open>
  The development embeds the second (later) variant of \<^verbatim>\<open>App.jsx\<close>, the one whose
  \<^verbatim>\<open>calculateConnectivityScore\<close> takes \<^verbatim>\<open>(adoptionData, designData)\<close>.

  Conventions of the embedding:
  \<^item> A JavaScript string is a \<open>string\<close>; each \<open>char\<close> stands for the code unit of the
    same number, so only code units below 256 are covered.
  \<^item> A JavaScript Number is a \<open>jsnum\<close>: a real number or one of the three special
    values. Arithmetic on finite numbers is exact real arithmetic (binary64 rounding is
    not modelled, and \<open>0.6\<close>, \<open>0.4\<close> are the rationals \<open>6/10\<close>, \<open>4/10\<close>); the special
    values follow IEEE 754. There is no negative zero.
  \<^item> A value decoded from JSON, or \<^verbatim>\<open>undefined\<close>, is a \<open>jsval\<close>; JSON numbers are
    covered when they are integers.
  \<^item> A thrown exception is the \<open>Inl\<close> side of a sum.
\<close>

subsection \<open>Exceptions\<close>

datatype exn = TypeError | SyntaxError | FetchFailure | Error string

definition and_then :: "exn + 'a \<Rightarrow> ('a \<Rightarrow> exn + 'b) \<Rightarrow> exn + 'b" where
  "and_then m f = (case m of Inl e \<Rightarrow> Inl e | Inr v \<Rightarrow> f v)"

subsection \<open>Numbers\<close>

datatype jsnum = Num real | PosInf | NegInf | NaN

text \<open>\<^verbatim>\<open>a + b\<close> on Numbers.\<close>

fun js_add :: "jsnum \<Rightarrow> jsnum \<Rightarrow> jsnum" where
  "js_add NaN _ = NaN"
| "js_add _ NaN = NaN"
| "js_add PosInf NegInf = NaN"
| "js_add NegInf PosInf = NaN"
| "js_add PosInf _ = PosInf"
| "js_add _ PosInf = PosInf"
| "js_add NegInf _ = NegInf"
| "js_add _ NegInf = NegInf"
| "js_add (Num a) (Num b) = Num (a + b)"

text \<open>\<^verbatim>\<open>a - b\<close> on Numbers.\<close>

fun js_sub :: "jsnum \<Rightarrow> jsnum \<Rightarrow> jsnum" where
  "js_sub NaN _ = NaN"
| "js_sub _ NaN = NaN"
| "js_sub PosInf PosInf = NaN"
| "js_sub NegInf NegInf = NaN"
| "js_sub PosInf _ = PosInf"
| "js_sub _ PosInf = NegInf"
| "js_sub NegInf _ = NegInf"
| "js_sub _ NegInf = PosInf"
| "js_sub (Num a) (Num b) = Num (a - b)"

text \<open>\<^verbatim>\<open>a * b\<close> on Numbers: an infinity times zero is \<^verbatim>\<open>NaN\<close>.\<close>

fun js_mul :: "jsnum \<Rightarrow> jsnum \<Rightarrow> jsnum" where
  "js_mul NaN _ = NaN"
| "js_mul _ NaN = NaN"
| "js_mul (Num a) (Num b) = Num (a * b)"
| "js_mul (Num a) PosInf = (if a = 0 then NaN else if 0 < a then PosInf else NegInf)"
| "js_mul (Num a) NegInf = (if a = 0 then NaN else if 0 < a then NegInf else PosInf)"
| "js_mul PosInf (Num b) = (if b = 0 then NaN else if 0 < b then PosInf else NegInf)"
| "js_mul NegInf (Num b) = (if b = 0 then NaN else if 0 < b then NegInf else PosInf)"
| "js_mul PosInf PosInf = PosInf"
| "js_mul PosInf NegInf = NegInf"
| "js_mul NegInf PosInf = NegInf"
| "js_mul NegInf NegInf = PosInf"

text \<open>
  \<^verbatim>\<open>a / b\<close> on Numbers. The source divides by the literals \<open>1000\<close> and \<open>15\<close> only; a
  zero divisor is read as positive zero.
\<close>

fun js_div :: "jsnum \<Rightarrow> jsnum \<Rightarrow> jsnum" where
  "js_div NaN _ = NaN"
| "js_div _ NaN = NaN"
| "js_div (Num a) (Num b) =
     (if b = 0 then (if a = 0 then NaN else if 0 < a then PosInf else NegInf)
      else Num (a / b))"
| "js_div (Num a) PosInf = Num 0"
| "js_div (Num a) NegInf = Num 0"
| "js_div PosInf (Num b) = (if 0 \<le> b then PosInf else NegInf)"
| "js_div NegInf (Num b) = (if 0 \<le> b then NegInf else PosInf)"
| "js_div PosInf PosInf = NaN"
| "js_div PosInf NegInf = NaN"
| "js_div NegInf PosInf = NaN"
| "js_div NegInf NegInf = NaN"

text \<open>\<^verbatim>\<open>Math.log\<close>: the natural logarithm, \<^verbatim>\<open>-Infinity\<close> at zero, \<^verbatim>\<open>NaN\<close> below.\<close>

fun Math_log :: "jsnum \<Rightarrow> jsnum" where
  "Math_log NaN = NaN"
| "Math_log NegInf = NaN"
| "Math_log PosInf = PosInf"
| "Math_log (Num x) = (if x < 0 then NaN else if x = 0 then NegInf else Num (ln x))"

text \<open>\<^verbatim>\<open>Math.min(a, b)\<close>: \<^verbatim>\<open>NaN\<close> if either argument is.\<close>

fun Math_min :: "jsnum \<Rightarrow> jsnum \<Rightarrow> jsnum" where
  "Math_min NaN _ = NaN"
| "Math_min _ NaN = NaN"
| "Math_min NegInf _ = NegInf"
| "Math_min _ NegInf = NegInf"
| "Math_min PosInf b = b"
| "Math_min a PosInf = a"
| "Math_min (Num a) (Num b) = Num (min a b)"

text \<open>The comparisons \<^verbatim>\<open>a < b\<close> and \<^verbatim>\<open>a <= b\<close>: false as soon as one side is \<^verbatim>\<open>NaN\<close>.\<close>

fun js_lt :: "jsnum \<Rightarrow> jsnum \<Rightarrow> bool" where
  "js_lt NaN _ = False"
| "js_lt _ NaN = False"
| "js_lt _ NegInf = False"
| "js_lt NegInf _ = True"
| "js_lt PosInf _ = False"
| "js_lt _ PosInf = True"
| "js_lt (Num a) (Num b) = (a < b)"

fun js_le :: "jsnum \<Rightarrow> jsnum \<Rightarrow> bool" where
  "js_le NaN _ = False"
| "js_le _ NaN = False"
| "js_le NegInf _ = True"
| "js_le _ NegInf = False"
| "js_le _ PosInf = True"
| "js_le PosInf _ = False"
| "js_le (Num a) (Num b) = (a \<le> b)"

text \<open>\<^verbatim>\<open>x || 0\<close> for a Number \<open>x\<close>: zero and \<^verbatim>\<open>NaN\<close> are falsy.\<close>

definition or_zero :: "jsnum \<Rightarrow> jsnum" where
  "or_zero x = (if x = NaN \<or> x = Num 0 then Num 0 else x)"

subsection \<open>Values\<close>

datatype jsval =
    Undefined
  | Null
  | JBool bool
  | JInt int
  | JStr string
  | JArr "jsval list"
  | JObj "(string \<times> jsval) list"

text \<open>
  In \<open>JObj fs\<close> the list \<open>fs\<close> holds the own properties; where a key occurs twice the
  first occurrence is the property's value.
\<close>

text \<open>\<^verbatim>\<open>ToBoolean\<close>.\<close>

fun truthy :: "jsval \<Rightarrow> bool" where
  "truthy Undefined = False"
| "truthy Null = False"
| "truthy (JBool b) = b"
| "truthy (JInt i) = (i \<noteq> 0)"
| "truthy (JStr s) = (s \<noteq> [])"
| "truthy (JArr xs) = True"
| "truthy (JObj fs) = True"

text \<open>\<^verbatim>\<open>a || b\<close> on values.\<close>

definition js_or :: "jsval \<Rightarrow> jsval \<Rightarrow> jsval" where
  "js_or a b = (if truthy a then a else b)"

text \<open>
  Property read \<^verbatim>\<open>v.k\<close>, for a key \<open>k\<close> that is neither an array index nor the name of
  a property inherited from a prototype (the source reads \<^verbatim>\<open>results\<close>, \<^verbatim>\<open>bindings\<close>,
  \<^verbatim>\<open>uri\<close>, \<^verbatim>\<open>vocab\<close>, \<^verbatim>\<open>value\<close>, \<^verbatim>\<open>length\<close> and the names of the query variables).
  Reading a property of \<^verbatim>\<open>undefined\<close> or \<^verbatim>\<open>null\<close> throws.
\<close>

fun get_prop :: "jsval \<Rightarrow> string \<Rightarrow> exn + jsval" where
  "get_prop Undefined k = Inl TypeError"
| "get_prop Null k = Inl TypeError"
| "get_prop (JObj fs) k = Inr (case map_of fs k of Some v \<Rightarrow> v | None \<Rightarrow> Undefined)"
| "get_prop (JArr xs) k = Inr (if k = ''length'' then JInt (int (length xs)) else Undefined)"
| "get_prop (JStr s) k = Inr (if k = ''length'' then JInt (int (length s)) else Undefined)"
| "get_prop (JBool b) k = Inr Undefined"
| "get_prop (JInt i) k = Inr Undefined"

text \<open>Optional chaining \<^verbatim>\<open>v?.value\<close>.\<close>

fun opt_value :: "jsval \<Rightarrow> jsval" where
  "opt_value Undefined = Undefined"
| "opt_value Null = Undefined"
| "opt_value v = (case get_prop v ''value'' of Inr x \<Rightarrow> x | Inl e \<Rightarrow> Undefined)"

subsection \<open>Conversion to string\<close>

definition digit_char :: "nat \<Rightarrow> char" where
  "digit_char d = char_of (48 + d)"

fun nat_digits :: "nat \<Rightarrow> string" where
  "nat_digits n = (if n < 10 then [digit_char n] else nat_digits (n div 10) @ [digit_char (n mod 10)])"

text \<open>
  \<^verbatim>\<open>Number::toString\<close> on an integer: plain decimal digits below \<open>10\<^sup>2\<^sup>1\<close>, above it the
  exponent form (\<^verbatim>\<open>1e+21\<close>, \<^verbatim>\<open>1.5e+21\<close>) with the trailing zeros of the mantissa removed.
\<close>

definition number_to_string :: "int \<Rightarrow> string" where
  "number_to_string i =
     (let ds = nat_digits (nat \<bar>i\<bar>);
          sign = (if i < 0 then ''-'' else [])
      in if \<bar>i\<bar> < 10 ^ 21 then sign @ ds
         else let s = rev (dropWhile (\<lambda>c. c = CHR ''0'') (rev ds))
              in sign @ take 1 s @ (if 1 < length s then ''.'' @ drop 1 s else [])
                   @ ''e+'' @ nat_digits (length ds - 1))"

fun join :: "string \<Rightarrow> string list \<Rightarrow> string" where
  "join sep [] = []"
| "join sep [x] = x"
| "join sep (x # y # ys) = x @ sep @ join sep (y # ys)"

text \<open>
  \<^verbatim>\<open>ToString\<close> (the conversion applied by template literals, property keys and
  \<^verbatim>\<open>parseInt\<close>). An object decoded from JSON converts to \<^verbatim>\<open>[object Object]\<close> through the
  inherited \<^verbatim>\<open>toString\<close>; when it has an own property \<^verbatim>\<open>toString\<close> (which is not callable)
  the conversion throws. An array converts by \<^verbatim>\<open>join(",")\<close>, where \<^verbatim>\<open>undefined\<close> and
  \<^verbatim>\<open>null\<close> elements give the empty string.
\<close>

fun stringifies :: "jsval \<Rightarrow> bool" where
  "stringifies (JArr xs) = list_all stringifies xs"
| "stringifies (JObj fs) = (map_of fs ''toString'' = None)"
| "stringifies v = True"

fun to_string :: "jsval \<Rightarrow> string" where
  "to_string Undefined = ''undefined''"
| "to_string Null = ''null''"
| "to_string (JBool b) = (if b then ''true'' else ''false'')"
| "to_string (JInt i) = number_to_string i"
| "to_string (JStr s) = s"
| "to_string (JArr xs) =
     join '','' (map (\<lambda>x. if x = Undefined \<or> x = Null then [] else to_string x) xs)"
| "to_string (JObj fs) = ''[object Object]''"

definition ToString :: "jsval \<Rightarrow> exn + string" where
  "ToString v = (if stringifies v then Inr (to_string v) else Inl TypeError)"

subsection \<open>\<^verbatim>\<open>parseInt\<close> and \<^verbatim>\<open>trim\<close>\<close>

text \<open>White space and line terminators among the code units below 256.\<close>

definition is_white_space :: "char \<Rightarrow> bool" where
  "is_white_space c =
     (c \<in> {CHR 0x09, CHR 0x0A, CHR 0x0B, CHR 0x0C, CHR 0x0D, CHR 0x20, CHR 0xA0})"

definition trim :: "string \<Rightarrow> string" where
  "trim s = rev (dropWhile is_white_space (rev (dropWhile is_white_space s)))"

definition digit_value :: "char \<Rightarrow> nat option" where
  "digit_value c =
     (let n = (of_char c :: nat)
      in if 48 \<le> n \<and> n \<le> 57 then Some (n - 48)
         else if 97 \<le> n \<and> n \<le> 122 then Some (n - 87)
         else if 65 \<le> n \<and> n \<le> 90 then Some (n - 55)
         else None)"

definition is_radix_digit :: "nat \<Rightarrow> char \<Rightarrow> bool" where
  "is_radix_digit R c = (case digit_value c of Some d \<Rightarrow> d < R | None \<Rightarrow> False)"

definition digits_value :: "nat \<Rightarrow> string \<Rightarrow> nat" where
  "digits_value R z = foldl (\<lambda>acc c. acc * R + (case digit_value c of Some d \<Rightarrow> d | None \<Rightarrow> 0)) 0 z"

text \<open>
  \<^verbatim>\<open>parseInt(string)\<close> with no radix argument, on a string: skip leading white space,
  read a sign, read the prefix \<^verbatim>\<open>0x\<close>/\<^verbatim>\<open>0X\<close> as radix 16, take the longest run of digits;
  no digit is \<^verbatim>\<open>NaN\<close>. The result is the exact integer the digits denote.
\<close>

definition parseInt_string :: "string \<Rightarrow> jsnum" where
  "parseInt_string input =
     (let s = dropWhile is_white_space input;
          sign = (if take 1 s = ''-'' then - 1 else (1 :: int));
          s = (if take 1 s = ''+'' \<or> take 1 s = ''-'' then drop 1 s else s);
          hex = (take 2 s = ''0x'' \<or> take 2 s = ''0X'');
          R = (if hex then 16 else 10);
          s = (if hex then drop 2 s else s);
          z = takeWhile (is_radix_digit R) s
      in if z = [] then NaN else Num (of_int (sign * int (digits_value R z))))"

text \<open>\<^verbatim>\<open>parseInt(v)\<close>: the argument is converted to a string first.\<close>

definition parseInt :: "jsval \<Rightarrow> exn + jsnum" where
  "parseInt v = and_then (ToString v) (\<lambda>s. Inr (parseInt_string s))"

subsection \<open>Scoring engine\<close>

record adoption_metrics =
  reusedByVocabularies :: jsval
  reusedByDatasets :: jsval
  occurrencesInDatasets :: jsval

record design_metrics =
  "extends" :: jsnum
  hasEquivalencesWith :: jsnum
  reliesOn :: jsnum
  usedBy :: jsnum
  specializes :: jsnum
  generalizes :: jsnum

text \<open>
  \<^verbatim>\<open>calculateConnectivityScore(adoptionData, designData)\<close>. A property of \<^verbatim>\<open>adoptionData\<close>
  that is missing reads as \<open>Undefined\<close>; the six properties of \<^verbatim>\<open>designData\<close> are Numbers.
\<close>

definition calculateConnectivityScore :: "adoption_metrics \<Rightarrow> design_metrics \<Rightarrow> exn + jsnum" where
  "calculateConnectivityScore adoptionData designData =
     and_then (parseInt (reusedByVocabularies adoptionData)) (\<lambda>n1.
     and_then (parseInt (reusedByDatasets adoptionData)) (\<lambda>n2.
     and_then (parseInt (occurrencesInDatasets adoptionData)) (\<lambda>n3.
     let reusedByVocabs = or_zero n1;
         reusedByDatasets = or_zero n2;
         occurrences = or_zero n3;
         extendsCount = or_zero (extends designData);
         hasEquivalences = or_zero (hasEquivalencesWith designData);
         reliesOn = or_zero (reliesOn designData);
         usedBy = or_zero (usedBy designData);
         specializes = or_zero (specializes designData);
         generalizes = or_zero (generalizes designData);
         designConvergence =
           js_add (js_add (js_add (js_add (js_add
             (Math_log (js_add (Num 1) extendsCount))
             (Math_log (js_add (Num 1) hasEquivalences)))
             (Math_log (js_add (Num 1) reliesOn)))
             (Math_log (js_add (Num 1) usedBy)))
             (Math_log (js_add (Num 1) specializes)))
             (Math_log (js_add (Num 1) generalizes));
         adoptionConvergence =
           js_add (js_add
             (Math_log (js_add (Num 1) reusedByVocabs))
             (Math_log (js_add (Num 1) reusedByDatasets)))
             (Math_log (js_add (Num 1) (js_div occurrences (Num 1000))));
         totalScore = js_add (js_mul (Num (6 / 10)) designConvergence)
                             (js_mul (Num (4 / 10)) adoptionConvergence)
     in Inr (Math_min (Num 1) (js_div totalScore (Num 15))))))"

subsection \<open>Remote services and the state of the page\<close>

text \<open>
  The text of a graph query is fixed by its template up to the inserted \<^verbatim>\<open>uriFilter\<close>, so
  a query is identified by its template and that string. A request is identified by its
  endpoint and by the parameter before URL encoding.
\<close>

datatype sparql_query = AdoptionQuery string | DesignQuery string

datatype request = SearchRequest string | SparqlRequest sparql_query

text \<open>
  What \<^verbatim>\<open>fetch\<close> gives back: the promise is rejected (transport failure), or a response
  arrives with a status and a body; the body is \<open>None\<close> when it is not JSON, so that
  \<^verbatim>\<open>response.json()\<close> rejects.
\<close>

record response =
  status :: nat
  body :: "jsval option"

datatype fetch_result = Rejected | Responded response

text \<open>
  One run of the pipeline issues each of its requests once, so the services are a function
  from requests to what comes back.
\<close>

type_synonym remote = "request \<Rightarrow> fetch_result"

text \<open>\<^verbatim>\<open>response.ok\<close>: the status is in the range 200 to 299.\<close>

definition ok :: "response \<Rightarrow> bool" where
  "ok r = (200 \<le> status r \<and> status r \<le> 299)"

text \<open>The observable effects: the requests issued, in order, and the lines of \<^verbatim>\<open>console.error\<close>.\<close>

record world =
  requests :: "request list"
  console :: "(string \<times> exn) list"

text \<open>
  Calling an array method (\<^verbatim>\<open>map\<close>, \<^verbatim>\<open>forEach\<close>) on a value: a value that is not an
  array has no such callable property, and the call throws.
\<close>

definition the_array :: "jsval \<Rightarrow> exn + jsval list" where
  "the_array v = (case v of JArr xs \<Rightarrow> Inr xs | _ \<Rightarrow> Inl TypeError)"

text \<open>\<^verbatim>\<open>xs.map(f)\<close> and \<^verbatim>\<open>xs.forEach(f)\<close> for a callback that may throw.\<close>

fun map_exn :: "('a \<Rightarrow> exn + 'b) \<Rightarrow> 'a list \<Rightarrow> exn + 'b list" where
  "map_exn f [] = Inr []"
| "map_exn f (x # xs) = and_then (f x) (\<lambda>y. and_then (map_exn f xs) (\<lambda>ys. Inr (y # ys)))"

fun for_each :: "('a \<Rightarrow> 's \<Rightarrow> exn + 's) \<Rightarrow> 'a list \<Rightarrow> 's \<Rightarrow> exn + 's" where
  "for_each f [] s = Inr s"
| "for_each f (x # xs) s = and_then (f x s) (for_each f xs)"

subsection \<open>Remote query client\<close>

text \<open>
  \<^verbatim>\<open>executeSPARQLQuery(query)\<close>. The URL is built before the \<^verbatim>\<open>try\<close> block;
  \<^verbatim>\<open>encodeURIComponent\<close> throws only on an unpaired surrogate, which no string covered here
  contains.
\<close>

definition executeSPARQLQuery :: "remote \<Rightarrow> sparql_query \<Rightarrow> world \<Rightarrow> jsval \<times> world" where
  "executeSPARQLQuery remote query w =
     (let w1 = w\<lparr>requests := requests w @ [SparqlRequest query]\<rparr>
      in case (case remote (SparqlRequest query) of
                 Rejected \<Rightarrow> Inl FetchFailure
               | Responded response \<Rightarrow>
                   if \<not> ok response
                   then Inl (Error (''SPARQL failed: '' @ nat_digits (status response)))
                   else (case body response of
                           None \<Rightarrow> Inl SyntaxError
                         | Some data \<Rightarrow>
                             and_then (get_prop data ''results'') (\<lambda>results.
                             get_prop results ''bindings''))) of
           Inr bindings \<Rightarrow> (bindings, w1)
         | Inl error \<Rightarrow> (JArr [], w1\<lparr>console := console w1 @ [(''SPARQL error:'', error)]\<rparr>))"

text \<open>\<^verbatim>\<open>searchLOV(searchTerm)\<close>.\<close>

definition searchLOV :: "remote \<Rightarrow> string \<Rightarrow> world \<Rightarrow> jsval \<times> world" where
  "searchLOV remote searchTerm w =
     (if trim searchTerm = [] then (JArr [], w)
      else
        let w1 = w\<lparr>requests := requests w @ [SearchRequest searchTerm]\<rparr>
        in case (case remote (SearchRequest searchTerm) of
                   Rejected \<Rightarrow> Inl FetchFailure
                 | Responded response \<Rightarrow>
                     if \<not> ok response
                     then Inl (Error (''LOV search failed: '' @ nat_digits (status response)))
                     else (case body response of
                             None \<Rightarrow> Inl SyntaxError
                           | Some data \<Rightarrow>
                               and_then (get_prop data ''results'') (\<lambda>results.
                               Inr (js_or results (JArr []))))) of
             Inr rows \<Rightarrow> (rows, w1)
           | Inl error \<Rightarrow> (JArr [], w1\<lparr>console := console w1 @ [(''LOV search error:'', error)]\<rparr>))"

subsection \<open>Query builder and metadata fetchers\<close>

text \<open>\<^verbatim>\<open>vocabularyUris.map(uri => `<${uri}>`).join(' ')\<close>.\<close>

definition uriFilter :: "jsval list \<Rightarrow> exn + string" where
  "uriFilter vocabularyUris =
     and_then (map_exn (\<lambda>uri. and_then (ToString uri) (\<lambda>s. Inr (''<'' @ s @ ''>''))) vocabularyUris)
       (\<lambda>parts. Inr (join '' '' parts))"

subsection \<open>Objects used as dictionaries\<close>

text \<open>
  \<^verbatim>\<open>adoptionMap\<close> and \<^verbatim>\<open>designMap\<close> start as \<^verbatim>\<open>{}\<close>, an object that inherits from
  \<^verbatim>\<open>Object.prototype\<close>, and are filled by \<^verbatim>\<open>map[uri] = {...}\<close>. Such an object is its own
  properties, each holding a record, and its prototype: \<open>None\<close> for \<^verbatim>\<open>Object.prototype\<close>, or
  the record that an assignment to the key \<^verbatim>\<open>__proto__\<close> has installed (that record
  inherits from \<^verbatim>\<open>Object.prototype\<close> in turn).
\<close>

record 'r dict =
  own :: "string \<rightharpoonup> 'r"
  proto :: "'r option"

text \<open>The object \<^verbatim>\<open>{}\<close>.\<close>

definition empty_dict :: "'r dict" where
  "empty_dict = \<lparr>own = Map.empty, proto = None\<rparr>"

text \<open>
  The data properties of \<^verbatim>\<open>Object.prototype\<close>, all of them functions; \<^verbatim>\<open>__proto__\<close>, its
  one accessor, is treated apart.
\<close>

definition object_prototype_names :: "string list" where
  "object_prototype_names =
     [''constructor'', ''hasOwnProperty'', ''isPrototypeOf'', ''propertyIsEnumerable'',
      ''toLocaleString'', ''toString'', ''valueOf'', ''__defineGetter__'', ''__defineSetter__'',
      ''__lookupGetter__'', ''__lookupSetter__'']"

text \<open>
  \<^verbatim>\<open>map[key] = record\<close>: the key \<^verbatim>\<open>__proto__\<close> reaches the inherited setter, which makes
  the record the prototype of the map; any other key becomes an own property.
\<close>

definition dict_set :: "'r dict \<Rightarrow> string \<Rightarrow> 'r \<Rightarrow> 'r dict" where
  "dict_set d key r =
     (if key = ''__proto__'' then d\<lparr>proto := Some r\<rparr> else d\<lparr>own := (own d)(key \<mapsto> r)\<rparr>)"

text \<open>
  What \<^verbatim>\<open>map[key]\<close> can give: a record, a member of \<^verbatim>\<open>Object.prototype\<close> (one of its
  functions, or \<^verbatim>\<open>Object.prototype\<close> itself for \<^verbatim>\<open>__proto__\<close>), or the value of a property
  of the record installed as prototype.
\<close>

datatype ('r, 'f) member = Metrics 'r | Builtin string | Property 'f

text \<open>
  \<^verbatim>\<open>map[key]\<close>, with \<open>None\<close> for \<^verbatim>\<open>undefined\<close>: the getter of \<^verbatim>\<open>__proto__\<close> gives the
  prototype; otherwise the own property, then the property of the prototype record of
  that name (\<open>props\<close> lists a record's properties), then the member of
  \<^verbatim>\<open>Object.prototype\<close>.
\<close>

definition dict_get ::
  "('r \<Rightarrow> string \<rightharpoonup> 'f) \<Rightarrow> 'r dict \<Rightarrow> string \<Rightarrow> ('r, 'f) member option" where
  "dict_get props d key =
     (if key = ''__proto__''
      then Some (case proto d of Some r \<Rightarrow> Metrics r | None \<Rightarrow> Builtin ''__proto__'')
      else case own d key of
             Some r \<Rightarrow> Some (Metrics r)
           | None \<Rightarrow>
               (case (case proto d of Some r \<Rightarrow> props r key | None \<Rightarrow> None) of
                  Some f \<Rightarrow> Some (Property f)
                | None \<Rightarrow>
                    if key \<in> set object_prototype_names then Some (Builtin key) else None))"

text \<open>\<^verbatim>\<open>map[key] || defaults\<close>: a record or a builtin is an object, hence truthy.\<close>

definition or_default :: "('f \<Rightarrow> bool) \<Rightarrow> ('r, 'f) member option \<Rightarrow> 'r \<Rightarrow> ('r, 'f) member" where
  "or_default truthy_field found defaults =
     (case found of
        None \<Rightarrow> Metrics defaults
      | Some (Property f) \<Rightarrow> if truthy_field f then Property f else Metrics defaults
      | Some m \<Rightarrow> m)"

text \<open>The properties of an adoption record and of a design record, by name.\<close>

definition adoption_fields :: "adoption_metrics \<Rightarrow> string \<rightharpoonup> jsval" where
  "adoption_fields r =
     [''reusedByVocabularies'' \<mapsto> reusedByVocabularies r,
      ''reusedByDatasets'' \<mapsto> reusedByDatasets r,
      ''occurrencesInDatasets'' \<mapsto> occurrencesInDatasets r]"

definition design_fields :: "design_metrics \<Rightarrow> string \<rightharpoonup> jsnum" where
  "design_fields r =
     [''extends'' \<mapsto> extends r, ''hasEquivalencesWith'' \<mapsto> hasEquivalencesWith r,
      ''reliesOn'' \<mapsto> reliesOn r, ''usedBy'' \<mapsto> usedBy r,
      ''specializes'' \<mapsto> specializes r, ''generalizes'' \<mapsto> generalizes r]"

text \<open>\<^verbatim>\<open>ToBoolean\<close> on a Number.\<close>

definition number_truthy :: "jsnum \<Rightarrow> bool" where
  "number_truthy x = (x \<noteq> NaN \<and> x \<noteq> Num 0)"

text \<open>
  What \<^verbatim>\<open>calculateConnectivityScore\<close> reads from its first argument when that is a
  member of a dictionary: the record itself; nothing from a builtin, which has none of
  the three properties; the properties of that name from any other value.
\<close>

definition adoption_properties :: "(adoption_metrics, jsval) member \<Rightarrow> adoption_metrics" where
  "adoption_properties m =
     (case m of
        Metrics r \<Rightarrow> r
      | Builtin name \<Rightarrow>
          \<lparr>reusedByVocabularies = Undefined, reusedByDatasets = Undefined,
           occurrencesInDatasets = Undefined\<rparr>
      | Property v \<Rightarrow>
          \<lparr>reusedByVocabularies =
             (case get_prop v ''reusedByVocabularies'' of Inr x \<Rightarrow> x | Inl e \<Rightarrow> Undefined),
           reusedByDatasets =
             (case get_prop v ''reusedByDatasets'' of Inr x \<Rightarrow> x | Inl e \<Rightarrow> Undefined),
           occurrencesInDatasets =
             (case get_prop v ''occurrencesInDatasets'' of Inr x \<Rightarrow> x | Inl e \<Rightarrow> Undefined)\<rparr>)"

text \<open>
  The same for the second argument. A builtin or a Number has none of the six
  properties, so each read gives \<^verbatim>\<open>undefined\<close>; the function uses a design property only
  as \<^verbatim>\<open>property || 0\<close>, where \<^verbatim>\<open>undefined\<close> and \<^verbatim>\<open>NaN\<close> alike give 0, and \<open>NaN\<close> stands for
  the missing property here.
\<close>

definition design_properties :: "(design_metrics, jsnum) member \<Rightarrow> design_metrics" where
  "design_properties m =
     (case m of
        Metrics r \<Rightarrow> r
      | _ \<Rightarrow>
          \<lparr>extends = NaN, hasEquivalencesWith = NaN, reliesOn = NaN, usedBy = NaN,
           specializes = NaN, generalizes = NaN\<rparr>)"

text \<open>The callback of \<^verbatim>\<open>results.forEach\<close> in \<^verbatim>\<open>getAdoptionConvergenceData\<close>.\<close>

definition adoption_row ::
  "jsval \<Rightarrow> adoption_metrics dict \<Rightarrow> exn + adoption_metrics dict" where
  "adoption_row result adoptionMap =
     and_then (get_prop result ''vocab'') (\<lambda>vocab.
     let uri = opt_value vocab
     in if truthy uri then
          and_then (get_prop result ''reusedByVocabs'') (\<lambda>rv.
          and_then (get_prop result ''reusedByDatasets'') (\<lambda>rd.
          and_then (get_prop result ''occurrences'') (\<lambda>occ.
          and_then (ToString uri) (\<lambda>key.
          Inr (dict_set adoptionMap key
            \<lparr>reusedByVocabularies = js_or (opt_value rv) (JStr ''0''),
             reusedByDatasets = js_or (opt_value rd) (JStr ''0''),
             occurrencesInDatasets = js_or (opt_value occ) (JStr ''0'')\<rparr>)))))
        else Inr adoptionMap)"

text \<open>\<^verbatim>\<open>getAdoptionConvergenceData(vocabularyUris)\<close>.\<close>

definition getAdoptionConvergenceData ::
  "remote \<Rightarrow> jsval list \<Rightarrow> world \<Rightarrow> (exn + adoption_metrics dict) \<times> world" where
  "getAdoptionConvergenceData remote vocabularyUris w =
     (if length vocabularyUris = 0 then (Inr empty_dict, w)
      else case uriFilter vocabularyUris of
             Inl e \<Rightarrow> (Inl e, w)
           | Inr filter_text \<Rightarrow>
               (case executeSPARQLQuery remote (AdoptionQuery filter_text) w of
                  (results, w1) \<Rightarrow>
                    (and_then (the_array results) (\<lambda>rows. for_each adoption_row rows empty_dict),
                     w1)))"

text \<open>\<^verbatim>\<open>parseInt(result.extendsCount?.value || '0')\<close> and its five siblings.\<close>

definition count_of :: "jsval \<Rightarrow> string \<Rightarrow> exn + jsnum" where
  "count_of result name =
     and_then (get_prop result name) (\<lambda>c. parseInt (js_or (opt_value c) (JStr ''0'')))"

text \<open>The callback of \<^verbatim>\<open>results.forEach\<close> in \<^verbatim>\<open>getDesignConvergenceData\<close>.\<close>

definition design_row ::
  "jsval \<Rightarrow> design_metrics dict \<Rightarrow> exn + design_metrics dict" where
  "design_row result designMap =
     and_then (get_prop result ''vocab'') (\<lambda>vocab.
     let uri = opt_value vocab
     in if truthy uri then
          and_then (count_of result ''extendsCount'') (\<lambda>e.
          and_then (count_of result ''hasEquivalencesCount'') (\<lambda>h.
          and_then (count_of result ''reliesOnCount'') (\<lambda>r.
          and_then (count_of result ''usedByCount'') (\<lambda>u.
          and_then (count_of result ''specializesCount'') (\<lambda>s.
          and_then (count_of result ''generalizesCount'') (\<lambda>g.
          and_then (ToString uri) (\<lambda>key.
          Inr (dict_set designMap key
            \<lparr>extends = e, hasEquivalencesWith = h, reliesOn = r, usedBy = u,
             specializes = s, generalizes = g\<rparr>))))))))
        else Inr designMap)"

text \<open>\<^verbatim>\<open>getDesignConvergenceData(vocabularyUris)\<close>.\<close>

definition getDesignConvergenceData ::
  "remote \<Rightarrow> jsval list \<Rightarrow> world \<Rightarrow> (exn + design_metrics dict) \<times> world" where
  "getDesignConvergenceData remote vocabularyUris w =
     (if length vocabularyUris = 0 then (Inr empty_dict, w)
      else case uriFilter vocabularyUris of
             Inl e \<Rightarrow> (Inl e, w)
           | Inr filter_text \<Rightarrow>
               (case executeSPARQLQuery remote (DesignQuery filter_text) w of
                  (results, w1) \<Rightarrow>
                    (and_then (the_array results) (\<lambda>rows. for_each design_row rows empty_dict),
                     w1)))"

subsection \<open>Ranking pipeline\<close>

text \<open>
  A merged record \<^verbatim>\<open>{...result, adoptionData, designData, connectivityScore}\<close>: \<open>entry\<close>
  is the search row whose properties the spread copies.
\<close>

record ranked_entry =
  entry :: jsval
  adoptionData :: "(adoption_metrics, jsval) member"
  designData :: "(design_metrics, jsnum) member"
  connectivityScore :: jsnum

text \<open>The state held by \<^verbatim>\<open>useState\<close> that \<^verbatim>\<open>performSearch\<close> writes.\<close>

record ui_state =
  loading :: bool
  searchResults :: "ranked_entry list"
  error :: "string option"

definition default_adoption :: adoption_metrics where
  "default_adoption =
     \<lparr>reusedByVocabularies = JStr ''0'', reusedByDatasets = JStr ''0'',
      occurrencesInDatasets = JStr ''0''\<rparr>"

definition default_design :: design_metrics where
  "default_design =
     \<lparr>extends = Num 0, hasEquivalencesWith = Num 0, reliesOn = Num 0, usedBy = Num 0,
      specializes = Num 0, generalizes = Num 0\<rparr>"

text \<open>The callback of \<^verbatim>\<open>lovResults.map\<close> in step 3 of \<^verbatim>\<open>performSearch\<close>.\<close>

definition enhance ::
  "adoption_metrics dict \<Rightarrow> design_metrics dict \<Rightarrow> jsval \<Rightarrow> exn + ranked_entry" where
  "enhance adoption_map design_map result =
     and_then (get_prop result ''uri'') (\<lambda>uri.
     and_then (ToString uri) (\<lambda>key.
     let adoption = or_default truthy (dict_get adoption_fields adoption_map key) default_adoption;
         design = or_default number_truthy (dict_get design_fields design_map key) default_design
     in and_then (calculateConnectivityScore (adoption_properties adoption)
                    (design_properties design)) (\<lambda>score.
        Inr \<lparr>entry = result, adoptionData = adoption, designData = design,
             connectivityScore = score\<rparr>)))"

text \<open>The comparator \<^verbatim>\<open>(a, b) => b.connectivityScore - a.connectivityScore\<close>.\<close>

definition by_score :: "ranked_entry \<Rightarrow> ranked_entry \<Rightarrow> jsnum" where
  "by_score a b = js_sub (connectivityScore b) (connectivityScore a)"

text \<open>
  \<^verbatim>\<open>Array.prototype.sort\<close> with a comparator. The language fixes the result only for a
  consistent comparator: the sort is stable and puts \<open>x\<close> before \<open>y\<close> when the comparator
  is negative on \<open>(x, y)\<close>; a comparator result of \<^verbatim>\<open>NaN\<close> counts as zero. The insertion
  sort below is one such sort; on a comparator that is not consistent the order is the
  engine's choice, and this is one possible choice.
\<close>

fun sort_insert :: "('a \<Rightarrow> 'a \<Rightarrow> jsnum) \<Rightarrow> 'a \<Rightarrow> 'a list \<Rightarrow> 'a list" where
  "sort_insert cmp x [] = [x]"
| "sort_insert cmp x (y # ys) =
     (if js_lt (Num 0) (cmp x y) then y # sort_insert cmp x ys else x # y # ys)"

fun array_sort :: "('a \<Rightarrow> 'a \<Rightarrow> jsnum) \<Rightarrow> 'a list \<Rightarrow> 'a list" where
  "array_sort cmp [] = []"
| "array_sort cmp (x # xs) = sort_insert cmp x (array_sort cmp xs)"

text \<open>
  The \<^verbatim>\<open>try\<close> block of \<^verbatim>\<open>performSearch\<close>: the list it hands to \<^verbatim>\<open>setSearchResults\<close>, or
  the exception it throws. The two metadata fetchers are both started before either is
  awaited; their effects are recorded adoption first.
\<close>

definition search_steps :: "remote \<Rightarrow> string \<Rightarrow> world \<Rightarrow> (exn + ranked_entry list) \<times> world" where
  "search_steps remote term w =
     (case searchLOV remote term w of
        (lovResults, w1) \<Rightarrow>
          (case get_prop lovResults ''length'' of
             Inl e \<Rightarrow> (Inl e, w1)
           | Inr len \<Rightarrow>
               if len = JInt 0 then (Inr [], w1)
               else (case and_then (the_array lovResults) (\<lambda>rows.
                          and_then (map_exn (\<lambda>result. get_prop result ''uri'') rows) (\<lambda>uris.
                          Inr (rows, filter truthy uris))) of
                       Inl e \<Rightarrow> (Inl e, w1)
                     | Inr (rows, vocabularyUris) \<Rightarrow>
                         (case getAdoptionConvergenceData remote vocabularyUris w1 of
                            (adoption, w2) \<Rightarrow>
                              (case getDesignConvergenceData remote vocabularyUris w2 of
                                 (design, w3) \<Rightarrow>
                                   (and_then adoption (\<lambda>adoption_map.
                                    and_then design (\<lambda>design_map.
                                    and_then (map_exn (enhance adoption_map design_map) rows)
                                      (\<lambda>enhancedResults.
                                    Inr (array_sort by_score enhancedResults)))), w3))))))"

text \<open>\<^verbatim>\<open>performSearch(term)\<close>, from the state before the call to the state once it has settled.\<close>

definition performSearch :: "remote \<Rightarrow> string \<Rightarrow> ui_state \<times> world \<Rightarrow> ui_state \<times> world" where
  "performSearch remote term = (\<lambda>(ui, w).
     if trim term = [] then (ui\<lparr>searchResults := []\<rparr>, w)
     else
       let ui1 = ui\<lparr>loading := True, error := None\<rparr>
       in case search_steps remote term w of
            (Inr results, w1) \<Rightarrow> (ui1\<lparr>searchResults := results, loading := False\<rparr>, w1)
          | (Inl err, w1) \<Rightarrow>
              (ui1\<lparr>error := Some ''Search failed. Please try again.'', loading := False\<rparr>,
               w1\<lparr>console := console w1 @ [(''Search error:'', err)]\<rparr>))"

section \<open>Notions used to state the properties\<close>

subsection \<open>Scoring\<close>

text \<open>\<^verbatim>\<open>parseInt(v) || 0\<close>: the number the scoring function reads from an adoption field.\<close>

definition adoption_number :: "jsval \<Rightarrow> exn + jsnum" where
  "adoption_number v = and_then (parseInt v) (\<lambda>n. Inr (or_zero n))"

text \<open>
  The arithmetic of \<^verbatim>\<open>calculateConnectivityScore\<close> on the nine numbers it has read
  (\<open>score_numbers\<close> below proves that the function is this arithmetic).
\<close>

definition score_of_numbers :: "jsnum \<Rightarrow> jsnum \<Rightarrow> jsnum \<Rightarrow> jsnum \<Rightarrow> jsnum \<Rightarrow> jsnum \<Rightarrow> jsnum \<Rightarrow> jsnum \<Rightarrow> jsnum \<Rightarrow> jsnum" where
  "score_of_numbers e h r u s g rv rd occ =
     Math_min (Num 1) (js_div (js_add
       (js_mul (Num (6 / 10))
          (js_add (js_add (js_add (js_add (js_add
             (Math_log (js_add (Num 1) e))
             (Math_log (js_add (Num 1) h)))
             (Math_log (js_add (Num 1) r)))
             (Math_log (js_add (Num 1) u)))
             (Math_log (js_add (Num 1) s)))
             (Math_log (js_add (Num 1) g))))
       (js_mul (Num (4 / 10))
          (js_add (js_add
             (Math_log (js_add (Num 1) rv))
             (Math_log (js_add (Num 1) rd)))
             (Math_log (js_add (Num 1) (js_div occ (Num 1000))))))) (Num 15))"

text \<open>
  The formula of the specification on real numbers: design convergence, adoption
  convergence, the weights \<open>0.6\<close> and \<open>0.4\<close>, the normaliser \<open>15\<close> and the cap at \<open>1\<close>.
\<close>

definition spec_score :: "real \<Rightarrow> real \<Rightarrow> real \<Rightarrow> real \<Rightarrow> real \<Rightarrow> real \<Rightarrow> real \<Rightarrow> real \<Rightarrow> real \<Rightarrow> real" where
  "spec_score e h r u s g rv rd occ =
     min 1 ((0.6 * (ln (1 + e) + ln (1 + h) + ln (1 + r) + ln (1 + u) + ln (1 + s) + ln (1 + g))
             + 0.4 * (ln (1 + rv) + ln (1 + rd) + ln (1 + occ / 1000))) / 15)"

text \<open>\<open>y\<close> is not less than \<open>x\<close>, in the sense of the comparison \<^verbatim>\<open>y < x\<close> being false.\<close>

definition not_less :: "jsnum \<Rightarrow> jsnum \<Rightarrow> bool" where
  "not_less x y = (\<not> js_lt y x)"

text \<open>A string that represents a non-negative integer: decimal digits, at least one.\<close>

definition is_decimal_digit :: "char \<Rightarrow> bool" where
  "is_decimal_digit c = (c \<in> set ''0123456789'')"

definition nonneg_integer_string :: "string \<Rightarrow> bool" where
  "nonneg_integer_string s = (s \<noteq> [] \<and> list_all is_decimal_digit s)"

text \<open>A non-negative integer count.\<close>

definition is_count :: "jsnum \<Rightarrow> bool" where
  "is_count x = (case x of Num r \<Rightarrow> 0 \<le> r \<and> r = of_int \<lfloor>r\<rfloor> | _ \<Rightarrow> False)"

definition valid_field :: "jsval \<Rightarrow> bool" where
  "valid_field v = (case v of JStr s \<Rightarrow> nonneg_integer_string s | _ \<Rightarrow> False)"

definition valid_adoption :: "adoption_metrics \<Rightarrow> bool" where
  "valid_adoption a = (valid_field (reusedByVocabularies a) \<and> valid_field (reusedByDatasets a)
      \<and> valid_field (occurrencesInDatasets a))"

definition valid_design :: "design_metrics \<Rightarrow> bool" where
  "valid_design d = (is_count (extends d) \<and> is_count (hasEquivalencesWith d) \<and> is_count (reliesOn d)
      \<and> is_count (usedBy d) \<and> is_count (specializes d) \<and> is_count (generalizes d))"

text \<open>
  Every metric read from the second pair of records is at least the one read from the
  first pair. Raising one field and leaving the others as they are is the special case in
  which eight of the nine comparisons are between equal numbers.
\<close>

definition field_le :: "jsval \<Rightarrow> jsval \<Rightarrow> bool" where
  "field_le v v' = (case (adoption_number v, adoption_number v') of
       (Inr x, Inr y) \<Rightarrow> js_le x y | _ \<Rightarrow> False)"

definition adoption_le :: "adoption_metrics \<Rightarrow> adoption_metrics \<Rightarrow> bool" where
  "adoption_le a a' = (field_le (reusedByVocabularies a) (reusedByVocabularies a')
      \<and> field_le (reusedByDatasets a) (reusedByDatasets a')
      \<and> field_le (occurrencesInDatasets a) (occurrencesInDatasets a'))"

definition design_le :: "design_metrics \<Rightarrow> design_metrics \<Rightarrow> bool" where
  "design_le d d' = (js_le (or_zero (extends d)) (or_zero (extends d'))
      \<and> js_le (or_zero (hasEquivalencesWith d)) (or_zero (hasEquivalencesWith d'))
      \<and> js_le (or_zero (reliesOn d)) (or_zero (reliesOn d'))
      \<and> js_le (or_zero (usedBy d)) (or_zero (usedBy d'))
      \<and> js_le (or_zero (specializes d)) (or_zero (specializes d'))
      \<and> js_le (or_zero (generalizes d)) (or_zero (generalizes d')))"

text \<open>An adoption field that is zero as the string \<^verbatim>\<open>"0"\<close> or as the number \<^verbatim>\<open>0\<close>.\<close>

definition zero_field :: "jsval \<Rightarrow> bool" where
  "zero_field v = (v = JStr ''0'' \<or> v = JInt 0)"

subsection \<open>Merging and ranking\<close>

text \<open>
  The property key under which the merge step looks a search row up:
  \<^verbatim>\<open>result.uri\<close> converted to a string (a missing \<^verbatim>\<open>uri\<close> gives the key \<^verbatim>\<open>undefined\<close>).
\<close>

definition uri_key :: "jsval \<Rightarrow> string" where
  "uri_key result = (case and_then (get_prop result ''uri'') ToString of Inr k \<Rightarrow> k | Inl e \<Rightarrow> [])"

text \<open>A keyword-search entry: an object whose \<^verbatim>\<open>uri\<close> is a string or is missing.\<close>

definition is_entry :: "jsval \<Rightarrow> bool" where
  "is_entry result = (case result of
       JObj fs \<Rightarrow> (case map_of fs ''uri'' of None \<Rightarrow> True | Some (JStr u) \<Rightarrow> True | Some _ \<Rightarrow> False)
     | _ \<Rightarrow> False)"

text \<open>An adoption record whose three fields convert to strings, as every string does.\<close>

definition readable :: "adoption_metrics \<Rightarrow> bool" where
  "readable a = (stringifies (reusedByVocabularies a) \<and> stringifies (reusedByDatasets a)
      \<and> stringifies (occurrencesInDatasets a))"

text \<open>A list in non-increasing order of \<^verbatim>\<open>connectivityScore\<close>.\<close>

definition descending :: "ranked_entry list \<Rightarrow> bool" where
  "descending rs = sorted_wrt (\<lambda>a b. js_le (connectivityScore b) (connectivityScore a)) rs"

section \<open>Example services\<close>

text \<open>
  Search rows \<^verbatim>\<open>{"uri": u}\<close>, result bindings \<^verbatim>\<open>{"vocab": {"value": u}, k: {"value": v}, ...}\<close>
  and the two payload shapes, for the concrete runs below.
\<close>

definition row :: "string \<Rightarrow> jsval" where
  "row u = JObj [(''uri'', JStr u)]"

definition binding :: "string \<Rightarrow> (string \<times> string) list \<Rightarrow> jsval" where
  "binding u vs = JObj ((''vocab'', JObj [(''value'', JStr u)])
                     # map (\<lambda>(k, v). (k, JObj [(''value'', JStr v)])) vs)"

definition json_ok :: "jsval \<Rightarrow> fetch_result" where
  "json_ok v = Responded \<lparr>status = 200, body = Some v\<rparr>"

definition search_payload :: "jsval list \<Rightarrow> jsval" where
  "search_payload rows = JObj [(''results'', JArr rows)]"

definition bindings_payload :: "jsval list \<Rightarrow> jsval" where
  "bindings_payload bs = JObj [(''results'', JObj [(''bindings'', JArr bs)])]"

text \<open>Three rows; the design query reports one \<^verbatim>\<open>extends\<close> relation for \<open>B\<close>.\<close>

definition ranking_remote :: remote where
  "ranking_remote req = (case req of
      SearchRequest t \<Rightarrow> json_ok (search_payload [row ''A'', row ''B'', row ''C''])
    | SparqlRequest (AdoptionQuery f) \<Rightarrow> json_ok (bindings_payload [])
    | SparqlRequest (DesignQuery f) \<Rightarrow>
        json_ok (bindings_payload [binding ''B'' [(''extendsCount'', ''1'')]]))"

text \<open>
  Three rows; the adoption query reports \<^verbatim>\<open>reusedByDatasets = "-5"\<close> for \<open>B\<close>, the design
  query one \<^verbatim>\<open>extends\<close> relation for \<open>C\<close>.
\<close>

definition negative_remote :: remote where
  "negative_remote req = (case req of
      SearchRequest t \<Rightarrow> json_ok (search_payload [row ''A'', row ''B'', row ''C''])
    | SparqlRequest (AdoptionQuery f) \<Rightarrow>
        json_ok (bindings_payload [binding ''B'' [(''reusedByDatasets'', ''-5'')]])
    | SparqlRequest (DesignQuery f) \<Rightarrow>
        json_ok (bindings_payload [binding ''C'' [(''extendsCount'', ''1'')]]))"

text \<open>
  One row; the graph endpoint answers 200 with the JSON body \<^verbatim>\<open>{"results": {}}\<close>, which
  has no \<^verbatim>\<open>bindings\<close>.
\<close>

definition missing_bindings_remote :: remote where
  "missing_bindings_remote req = (case req of
      SearchRequest t \<Rightarrow> json_ok (search_payload [row ''A''])
    | SparqlRequest q \<Rightarrow> json_ok (JObj [(''results'', JObj [])]))"

text \<open>The search endpoint answers with no rows.\<close>

definition empty_remote :: remote where
  "empty_remote req = json_ok (search_payload [])"

definition idle :: ui_state where
  "idle = \<lparr>loading = False, searchResults = [], error = None\<rparr>"

definition quiet :: world where
  "quiet = \<lparr>requests = [], console = []\<rparr>"

definition unranked :: "jsval \<Rightarrow> ranked_entry" where
  "unranked result = \<lparr>entry = result, adoptionData = Metrics default_adoption,
     designData = Metrics default_design, connectivityScore = Num 0\<rparr>"

definition shown :: ui_state where
  "shown = \<lparr>loading = False, searchResults = [unranked (row ''Z'')], error = None\<rparr>"

definition ranking_expected :: "ranked_entry list" where
  "ranking_expected =
     [(unranked (row ''B''))\<lparr>designData := Metrics (default_design\<lparr>extends := Num 1\<rparr>),
                             connectivityScore := Num (ln 2 / 25)\<rparr>,
      unranked (row ''A''), unranked (row ''C'')]"

definition ranking_world :: world where
  "ranking_world =
     \<lparr>requests = [SearchRequest ''x'', SparqlRequest (AdoptionQuery ''<A> <B> <C>''),
                  SparqlRequest (DesignQuery ''<A> <B> <C>'')],
      console = []\<rparr>"

definition example_adoption_map :: "adoption_metrics dict" where
  "example_adoption_map =
     dict_set empty_dict ''A''
       \<lparr>reusedByVocabularies = JStr ''12'', reusedByDatasets = JStr ''3'',
        occurrencesInDatasets = JStr ''4500''\<rparr>"

text \<open>
  One row whose \<^verbatim>\<open>uri\<close> is the string \<^verbatim>\<open>constructor\<close>; both graph queries answer with no
  bindings.
\<close>

definition inherited_key_remote :: remote where
  "inherited_key_remote req = (case req of
      SearchRequest t \<Rightarrow> json_ok (search_payload [row ''constructor''])
    | SparqlRequest q \<Rightarrow> json_ok (bindings_payload []))"

section \<open>Properties of the scoring engine\<close>

lemma score_numbers:
  assumes "adoption_number (reusedByVocabularies a) = Inr rv"
      and "adoption_number (reusedByDatasets a) = Inr rd"
      and "adoption_number (occurrencesInDatasets a) = Inr occ"
  shows "calculateConnectivityScore a d =
     Inr (score_of_numbers (or_zero (extends d)) (or_zero (hasEquivalencesWith d)) (or_zero (reliesOn d))
                  (or_zero (usedBy d)) (or_zero (specializes d)) (or_zero (generalizes d)) rv rd occ)"
  using assms
  by (auto simp: calculateConnectivityScore_def adoption_number_def and_then_def score_of_numbers_def Let_def
           split: sum.splits)








lemma log_succ: "0 \<le> x \<Longrightarrow> Math_log (Num (1 + x)) = Num (ln (1 + x))"
  by simp

lemma div_lit: "js_div (Num x) (Num 1000) = Num (x / 1000)" "js_div (Num x) (Num 15) = Num (x / 15)"
  by simp_all

lemma score_of_numbers_Num:
  assumes "0 \<le> e" "0 \<le> h" "0 \<le> r" "0 \<le> u" "0 \<le> s" "0 \<le> g" "0 \<le> rv" "0 \<le> rd" "0 \<le> occ"
  shows "score_of_numbers (Num e) (Num h) (Num r) (Num u) (Num s) (Num g) (Num rv) (Num rd) (Num occ)
         = Num (spec_score e h r u s g rv rd occ)"
proof -
  have o: "0 \<le> occ / 1000" using assms by simp
  show ?thesis
    unfolding score_of_numbers_def spec_score_def div_lit js_add.simps
      log_succ[OF assms(1)] log_succ[OF assms(2)] log_succ[OF assms(3)] log_succ[OF assms(4)]
      log_succ[OF assms(5)] log_succ[OF assms(6)] log_succ[OF assms(7)] log_succ[OF assms(8)]
      js_add.simps log_succ[OF o] js_mul.simps Math_min.simps
    by (rule refl)
qed

lemma spec_score_bounds:
  assumes "0 \<le> e" "0 \<le> h" "0 \<le> r" "0 \<le> u" "0 \<le> s" "0 \<le> g" "0 \<le> rv" "0 \<le> rd" "0 \<le> occ"
  shows "0 \<le> spec_score e h r u s g rv rd occ \<and> spec_score e h r u s g rv rd occ \<le> 1"
proof -
  have l: "\<And>x::real. 0 \<le> x \<Longrightarrow> 0 \<le> ln (1 + x)" by simp
  have "0 \<le> occ / 1000" using assms by simp
  then have "0 \<le> ln (1 + occ / 1000)" by (rule l)
  moreover note l[OF assms(1)] l[OF assms(2)] l[OF assms(3)] l[OF assms(4)] l[OF assms(5)]
    l[OF assms(6)] l[OF assms(7)] l[OF assms(8)]
  ultimately show ?thesis unfolding spec_score_def by simp
qed

lemma decimal_digit_props:
  assumes "is_decimal_digit c"
  shows "is_radix_digit 10 c" "\<not> is_white_space c" "c \<noteq> CHR ''-''" "c \<noteq> CHR ''+''"
        "c \<noteq> CHR ''x''" "c \<noteq> CHR ''X''"
  using assms
  by (auto simp: is_decimal_digit_def is_radix_digit_def digit_value_def is_white_space_def)

lemma parseInt_string_digits:
  assumes "nonneg_integer_string s"
  shows "parseInt_string s = Num (real (digits_value 10 s))"
proof -
  from assms obtain c cs where s: "s = c # cs" and c: "is_decimal_digit c"
    and cs: "list_all is_decimal_digit cs"
    by (cases s) (auto simp: nonneg_integer_string_def)
  have dw: "dropWhile is_white_space s = s"
    using decimal_digit_props(2)[OF c] by (simp add: s)
  have sg: "take 1 s \<noteq> ''-''" "take 1 s \<noteq> ''+''"
    using decimal_digit_props(3,4)[OF c] by (simp_all add: s)
  have hex: "take 2 s \<noteq> ''0x''" "take 2 s \<noteq> ''0X''"
    using cs decimal_digit_props(5,6) unfolding s by (cases cs; auto)+
  have tw: "takeWhile (is_radix_digit 10) s = s"
    using c cs unfolding s
    by (auto simp: decimal_digit_props(1) list_all_iff intro!: takeWhile_eq_all_conv[THEN iffD2])
  have ne: "s \<noteq> []" by (simp add: s)
  show ?thesis
    unfolding parseInt_string_def Let_def dw using sg hex ne by (simp add: tw)
qed

lemma adoption_number_digits:
  assumes "nonneg_integer_string s"
  shows "adoption_number (JStr s) = Inr (Num (real (digits_value 10 s)))"
  by (simp add: adoption_number_def parseInt_def ToString_def and_then_def
      parseInt_string_digits[OF assms] or_zero_def)

lemma is_countE: "is_count x \<Longrightarrow> \<exists>r. x = Num r \<and> 0 \<le> r \<and> or_zero x = Num r"
  by (cases x) (auto simp: is_count_def or_zero_def)

lemma valid_fieldE: "valid_field v \<Longrightarrow> \<exists>r. adoption_number v = Inr (Num r) \<and> 0 \<le> r"
  by (cases v) (auto simp: valid_field_def adoption_number_digits)

lemma not_less_total: "not_less x y \<Longrightarrow> x \<noteq> NaN \<Longrightarrow> y \<noteq> NaN \<Longrightarrow> js_le x y"
  unfolding not_less_def by (cases x; cases y) auto


text \<open>What \<^verbatim>\<open>parseInt\<close> makes of some strings.\<close>

lemma parseInt_string_examples:
  "parseInt_string ''12abc'' = Num 12"
  "parseInt_string '' 42'' = Num 42"
  "parseInt_string ''0x1F'' = Num 31"
  "parseInt_string ''-5'' = Num (- 5)"
  "parseInt_string ''3.7'' = Num 3"
  "parseInt_string ''abc'' = NaN"
  "parseInt_string [] = NaN"
  "parseInt_string ''undefined'' = NaN"
  by (simp_all add: parseInt_string_def is_white_space_def is_radix_digit_def digit_value_def
      digits_value_def Let_def)

lemma adoption_number_eval:
  "adoption_number (JStr ''0'') = Inr (Num 0)"
  "adoption_number (JInt 0) = Inr (Num 0)"
  "adoption_number (JStr ''3'') = Inr (Num 3)"
  "adoption_number (JStr ''7'') = Inr (Num 7)"
  "adoption_number (JStr ''12'') = Inr (Num 12)"
  "adoption_number (JStr ''4500'') = Inr (Num 4500)"
  by (simp_all add: adoption_number_def parseInt_def ToString_def and_then_def
      parseInt_string_def is_white_space_def is_radix_digit_def digit_value_def digits_value_def
      number_to_string_def digit_char_def or_zero_def Let_def)

text \<open>
  The part of claim C1 that the code does: when the three adoption fields read as
  non-negative numbers (a missing or unparseable field reads as 0) and the six counts are
  non-negative, the function returns the value of the formula, which lies between 0 and 1.
\<close>

lemma or_zero_Num: "or_zero (Num x) = Num x"
  by (simp add: or_zero_def)

lemma score_nonneg_numbers:
  assumes "adoption_number (reusedByVocabularies a) = Inr (Num rv)" "0 \<le> rv"
      and "adoption_number (reusedByDatasets a) = Inr (Num rd)" "0 \<le> rd"
      and "adoption_number (occurrencesInDatasets a) = Inr (Num occ)" "0 \<le> occ"
      and "extends d = Num e" "0 \<le> e" "hasEquivalencesWith d = Num h" "0 \<le> h"
      and "reliesOn d = Num r" "0 \<le> r" "usedBy d = Num u" "0 \<le> u"
      and "specializes d = Num s" "0 \<le> s" "generalizes d = Num g" "0 \<le> g"
  shows "calculateConnectivityScore a d = Inr (Num (spec_score e h r u s g rv rd occ))
         \<and> 0 \<le> spec_score e h r u s g rv rd occ \<and> spec_score e h r u s g rv rd occ \<le> 1"
proof -
  have "calculateConnectivityScore a d =
          Inr (score_of_numbers (Num e) (Num h) (Num r) (Num u) (Num s) (Num g)
                 (Num rv) (Num rd) (Num occ))"
    using score_numbers[OF assms(1,3,5), of d] by (simp add: assms or_zero_Num)
  then show ?thesis
    using score_of_numbers_Num[of e h r u s g rv rd occ]
      spec_score_bounds[of e h r u s g rv rd occ] assms
    by simp
qed

text \<open>
  Claim C1 fails on the code. The adoption field \<^verbatim>\<open>occurrencesInDatasets = "-500"\<close> is a
  string that \<^verbatim>\<open>parseInt\<close> reads as \<open>-500\<close>; \<^verbatim>\<open>|| 0\<close> replaces \<^verbatim>\<open>NaN\<close> and lets a negative
  number through, and with every other metric at zero the function returns
  \<open>0.4 * ln (1/2) / 15\<close>, a negative number, where the claim and the comment
  \<^verbatim>\<open>Normalize to 0-1\<close> on the return statement have a value between 0 and 1.
\<close>

theorem negative_occurrences_score:
  "calculateConnectivityScore
     \<lparr>reusedByVocabularies = JStr ''0'', reusedByDatasets = JStr ''0'',
      occurrencesInDatasets = JStr ''-500''\<rparr>
     \<lparr>extends = Num 0, hasEquivalencesWith = Num 0, reliesOn = Num 0, usedBy = Num 0,
      specializes = Num 0, generalizes = Num 0\<rparr>
   = Inr (Num (4 / 10 * ln (1 / 2) / 15)) \<and> 4 / 10 * ln (1 / 2) / 15 < (0 :: real)"
proof -
  have neg: "ln (1 / 2 :: real) < 0" by simp
  then have "2 * ln (1 / 2 :: real) / 75 \<le> 1" by linarith
  then have "min 1 (2 * ln (1 / 2 :: real) / 75) = 2 * ln (1 / 2) / 75" by (rule min_absorb2)
  with neg show ?thesis
    by (simp add: calculateConnectivityScore_def parseInt_def ToString_def and_then_def
      parseInt_string_def is_white_space_def is_radix_digit_def digit_value_def digits_value_def
      or_zero_def Let_def)
qed

text \<open>
  The comparison of metric records is reflexive, so a record compares with a copy of
  itself in which one field has been raised.
\<close>

lemma js_le_or_zero_refl: "js_le (or_zero x) (or_zero x)"
  by (cases x) (simp_all add: or_zero_def)

lemma design_le_refl: "design_le d d"
  by (simp add: design_le_def js_le_or_zero_refl)

lemma field_le_refl: "stringifies v \<Longrightarrow> field_le v v"
  by (simp add: field_le_def adoption_number_def parseInt_def ToString_def and_then_def
      js_le_or_zero_refl)

lemma adoption_le_refl: "readable a \<Longrightarrow> adoption_le a a"
  by (simp add: adoption_le_def readable_def field_le_refl)

lemma raise_extends:
  "js_le (or_zero (extends d)) (or_zero v) \<Longrightarrow> design_le d (d\<lparr>extends := v\<rparr>)"
  by (simp add: design_le_def js_le_or_zero_refl)

lemma raise_occurrences:
  "readable a \<Longrightarrow> field_le (occurrencesInDatasets a) v
     \<Longrightarrow> adoption_le a (a\<lparr>occurrencesInDatasets := v\<rparr>)"
  by (simp add: adoption_le_def readable_def field_le_refl)



text \<open>
  Claim C5. For valid metrics (every adoption field a string of decimal digits, every
  design count a non-negative integer) the function returns a number between 0 and 1.
\<close>

theorem score_in_unit_interval:
  assumes "valid_adoption a" "valid_design d"
  shows "\<exists>x. calculateConnectivityScore a d = Inr (Num x) \<and> 0 \<le> x \<and> x \<le> 1"
proof -
  obtain rv rd occ where a:
    "adoption_number (reusedByVocabularies a) = Inr (Num rv)" "0 \<le> rv"
    "adoption_number (reusedByDatasets a) = Inr (Num rd)" "0 \<le> rd"
    "adoption_number (occurrencesInDatasets a) = Inr (Num occ)" "0 \<le> occ"
    using assms(1) unfolding valid_adoption_def by (blast dest: valid_fieldE)
  obtain e h r u s g where d:
    "extends d = Num e" "0 \<le> e" "hasEquivalencesWith d = Num h" "0 \<le> h"
    "reliesOn d = Num r" "0 \<le> r" "usedBy d = Num u" "0 \<le> u"
    "specializes d = Num s" "0 \<le> s" "generalizes d = Num g" "0 \<le> g"
    using assms(2) unfolding valid_design_def by (blast dest: is_countE)
  from score_nonneg_numbers[OF a d] show ?thesis by blast
qed

theorem score_in_unit_interval_witness:
  "valid_adoption
     \<lparr>reusedByVocabularies = JStr ''12'', reusedByDatasets = JStr ''3'',
      occurrencesInDatasets = JStr ''4500''\<rparr>
   \<and> valid_design
     \<lparr>extends = Num 1, hasEquivalencesWith = Num 0, reliesOn = Num 2, usedBy = Num 0,
      specializes = Num 0, generalizes = Num 3\<rparr>
   \<and> (\<exists>x. calculateConnectivityScore
          \<lparr>reusedByVocabularies = JStr ''12'', reusedByDatasets = JStr ''3'',
           occurrencesInDatasets = JStr ''4500''\<rparr>
          \<lparr>extends = Num 1, hasEquivalencesWith = Num 0, reliesOn = Num 2, usedBy = Num 0,
           specializes = Num 0, generalizes = Num 3\<rparr> = Inr (Num x) \<and> 0 \<le> x \<and> x \<le> 1)"
proof -
  have a: "valid_adoption
     \<lparr>reusedByVocabularies = JStr ''12'', reusedByDatasets = JStr ''3'',
      occurrencesInDatasets = JStr ''4500''\<rparr>"
    by (simp add: valid_adoption_def valid_field_def nonneg_integer_string_def
        is_decimal_digit_def)
  have d: "valid_design
     \<lparr>extends = Num 1, hasEquivalencesWith = Num 0, reliesOn = Num 2, usedBy = Num 0,
      specializes = Num 0, generalizes = Num 3\<rparr>"
    by (simp add: valid_design_def is_count_def)
  from score_in_unit_interval[OF a d] a d show ?thesis by blast
qed

text \<open>
  Claim C6. When every adoption field is the string \<^verbatim>\<open>"0"\<close> or the number \<^verbatim>\<open>0\<close> and every
  design count is 0, the function returns exactly 0.
\<close>

theorem all_zero_score:
  assumes "zero_field f1" "zero_field f2" "zero_field f3"
  shows "calculateConnectivityScore
           \<lparr>reusedByVocabularies = f1, reusedByDatasets = f2, occurrencesInDatasets = f3\<rparr>
           \<lparr>extends = Num 0, hasEquivalencesWith = Num 0, reliesOn = Num 0, usedBy = Num 0,
            specializes = Num 0, generalizes = Num 0\<rparr>
         = Inr (Num 0)"
proof -
  have f: "adoption_number f1 = Inr (Num 0)" "adoption_number f2 = Inr (Num 0)"
    "adoption_number f3 = Inr (Num 0)"
    using assms by (auto simp: zero_field_def adoption_number_eval)
  have "calculateConnectivityScore
           \<lparr>reusedByVocabularies = f1, reusedByDatasets = f2, occurrencesInDatasets = f3\<rparr>
           \<lparr>extends = Num 0, hasEquivalencesWith = Num 0, reliesOn = Num 0, usedBy = Num 0,
            specializes = Num 0, generalizes = Num 0\<rparr>
         = Inr (score_of_numbers (Num 0) (Num 0) (Num 0) (Num 0) (Num 0) (Num 0)
                  (Num 0) (Num 0) (Num 0))"
    using score_numbers[of "\<lparr>reusedByVocabularies = f1, reusedByDatasets = f2,
      occurrencesInDatasets = f3\<rparr>" "Num 0" "Num 0" "Num 0"] f
    by (simp add: or_zero_def)
  then show ?thesis by (simp add: score_of_numbers_def)
qed

theorem all_zero_score_witness:
  "zero_field (JStr ''0'') \<and> zero_field (JInt 0)
   \<and> calculateConnectivityScore
       \<lparr>reusedByVocabularies = JStr ''0'', reusedByDatasets = JInt 0,
        occurrencesInDatasets = JStr ''0''\<rparr>
       \<lparr>extends = Num 0, hasEquivalencesWith = Num 0, reliesOn = Num 0, usedBy = Num 0,
        specializes = Num 0, generalizes = Num 0\<rparr>
     = Inr (Num 0)"
proof -
  have s: "zero_field (JStr ''0'')" and i: "zero_field (JInt 0)"
    by (simp_all add: zero_field_def)
  from all_zero_score[OF s i s] s i show ?thesis by blast
qed

section \<open>Properties of the pipeline\<close>

subsection \<open>Concrete runs\<close>

lemmas example_defs = row_def binding_def json_ok_def search_payload_def bindings_payload_def
  quiet_def unranked_def

lemmas pipeline_defs =
  performSearch_def search_steps_def searchLOV_def executeSPARQLQuery_def
  getAdoptionConvergenceData_def getDesignConvergenceData_def uriFilter_def
  adoption_row_def design_row_def count_of_def enhance_def by_score_def
  the_array_def and_then_def ok_def js_or_def trim_def is_white_space_def
  ToString_def parseInt_def parseInt_string_def is_radix_digit_def digit_value_def
  digits_value_def calculateConnectivityScore_def or_zero_def default_adoption_def
  default_design_def empty_dict_def dict_set_def dict_get_def or_default_def
  adoption_fields_def design_fields_def number_truthy_def adoption_properties_def
  design_properties_def object_prototype_names_def Let_def

lemma ln2_small: "min 1 (ln 2 / 25) = ln (2::real) / 25"
proof -
  have "ln (2::real) < 1" by (rule ln_2_less_1)
  then show ?thesis by simp
qed

lemma ranking_example:
  "search_steps ranking_remote ''x'' quiet = (Inr ranking_expected, ranking_world)"
  by (simp add: ranking_remote_def example_defs pipeline_defs ranking_expected_def
      ranking_world_def ln2_small)

lemma ranking_example_search:
  "fst (searchLOV ranking_remote ''x'' quiet) = JArr [row ''A'', row ''B'', row ''C'']"
  by (simp add: ranking_remote_def example_defs pipeline_defs)

lemma missing_bindings_steps:
  "search_steps missing_bindings_remote ''x'' quiet
     = (Inl TypeError, \<lparr>requests = [SearchRequest ''x'', SparqlRequest (AdoptionQuery ''<A>''),
                   SparqlRequest (DesignQuery ''<A>'')], console = []\<rparr>)"
  by (simp add: missing_bindings_remote_def example_defs pipeline_defs)

lemma empty_example:
  "searchLOV empty_remote ''x'' quiet
     = (JArr [], \<lparr>requests = [SearchRequest ''x''], console = []\<rparr>)"
  by (simp add: empty_remote_def example_defs pipeline_defs)


subsection \<open>Blank terms and empty searches\<close>

lemma trim_blank: "list_all is_white_space s \<Longrightarrow> trim s = []"
proof -
  assume "list_all is_white_space s"
  then have d: "dropWhile is_white_space s = []"
    by (induction s) simp_all
  show ?thesis unfolding trim_def d by simp
qed

text \<open>
  Claim C7. For a search term that is empty or consists of white space only, \<^verbatim>\<open>searchLOV\<close>
  returns the empty list and \<^verbatim>\<open>performSearch\<close> sets the empty result list, and neither
  issues a request: the world, which records every request, is unchanged.
\<close>

theorem blank_term_no_request:
  assumes "list_all is_white_space term"
  shows "searchLOV remote term w = (JArr [], w)
       \<and> performSearch remote term (ui, w) = (ui\<lparr>searchResults := []\<rparr>, w)"
  using assms by (simp add: searchLOV_def performSearch_def trim_blank)

theorem blank_term_no_request_witness:
  "list_all is_white_space ''  ''
   \<and> searchLOV empty_remote ''  '' quiet = (JArr [], quiet)
   \<and> performSearch empty_remote ''  '' (shown, quiet) = (shown\<lparr>searchResults := []\<rparr>, quiet)"
proof -
  have b: "list_all is_white_space ''  ''" by (simp add: is_white_space_def)
  from blank_term_no_request[OF b] b show ?thesis by blast
qed

lemma searchLOV_requests:
  "requests (snd (searchLOV remote term w))
     = requests w @ (if trim term = [] then [] else [SearchRequest term])"
  by (auto simp: searchLOV_def Let_def split: fetch_result.splits option.splits sum.splits)

lemma search_steps_no_rows:
  assumes "fst (searchLOV remote term w) = JArr []"
  shows "search_steps remote term w = (Inr [], snd (searchLOV remote term w))"
  using assms by (cases "searchLOV remote term w") (simp add: search_steps_def)

text \<open>
  Claim C8. When the keyword search returns zero rows, \<^verbatim>\<open>performSearch\<close> sets the empty
  result list and the only request of the whole run is the search request (none for a
  blank term): no metadata query is issued. The two metadata fetchers, given no uri,
  return the empty mapping \<^verbatim>\<open>{}\<close> and leave the world as it is.
\<close>

theorem no_rows_no_metadata_query:
  assumes "fst (searchLOV remote term w) = JArr []"
  shows "searchResults (fst (performSearch remote term (ui, w))) = []
       \<and> requests (snd (performSearch remote term (ui, w)))
           = requests w @ (if trim term = [] then [] else [SearchRequest term])
       \<and> getAdoptionConvergenceData remote [] w' = (Inr empty_dict, w')
       \<and> getDesignConvergenceData remote [] w' = (Inr empty_dict, w')"
  using search_steps_no_rows[OF assms] searchLOV_requests[of remote "term" w]
  by (simp add: performSearch_def getAdoptionConvergenceData_def getDesignConvergenceData_def Let_def)

theorem no_rows_no_metadata_query_witness:
  "fst (searchLOV empty_remote ''x'' quiet) = JArr []
   \<and> searchResults (fst (performSearch empty_remote ''x'' (shown, quiet))) = []
   \<and> requests (snd (performSearch empty_remote ''x'' (shown, quiet)))
       = [SearchRequest ''x'']
   \<and> getAdoptionConvergenceData empty_remote [] quiet = (Inr empty_dict, quiet)
   \<and> getDesignConvergenceData empty_remote [] quiet = (Inr empty_dict, quiet)"
proof -
  have e: "fst (searchLOV empty_remote ''x'' quiet) = JArr []"
    by (simp add: empty_example)
  have t: "trim ''x'' \<noteq> []" by (simp add: trim_def is_white_space_def)
  from no_rows_no_metadata_query[OF e, of shown quiet] e t show ?thesis
    by (simp add: quiet_def)
qed

subsection \<open>Failures\<close>

text \<open>
  The part of claim C9 that holds: a rejected request, a status outside 200 to 299 and a
  body that is not JSON each make the client return the empty list and log one line.
\<close>

lemma executeSPARQLQuery_degrades:
  assumes "remote (SparqlRequest q) = Rejected
         \<or> (\<exists>r. remote (SparqlRequest q) = Responded r \<and> (\<not> ok r \<or> body r = None))"
  shows "fst (executeSPARQLQuery remote q w) = JArr []
       \<and> length (console (snd (executeSPARQLQuery remote q w))) = Suc (length (console w))"
  using assms by (auto simp: executeSPARQLQuery_def Let_def)

lemma searchLOV_degrades:
  assumes "trim term \<noteq> []"
      and "remote (SearchRequest term) = Rejected
         \<or> (\<exists>r. remote (SearchRequest term) = Responded r \<and> (\<not> ok r \<or> body r = None))"
  shows "fst (searchLOV remote term w) = JArr []
       \<and> length (console (snd (searchLOV remote term w))) = Suc (length (console w))"
  using assms by (auto simp: searchLOV_def Let_def)

text \<open>
  A JSON body without \<^verbatim>\<open>results\<close> also gives the empty list: in \<^verbatim>\<open>executeSPARQLQuery\<close>
  through the exception of reading \<^verbatim>\<open>bindings\<close> of \<^verbatim>\<open>undefined\<close>, in \<^verbatim>\<open>searchLOV\<close>
  through its \<^verbatim>\<open>data.results || []\<close>.
\<close>

lemma executeSPARQLQuery_missing_results:
  assumes "remote (SparqlRequest q) = Responded \<lparr>status = 200, body = Some (JObj [])\<rparr>"
  shows "fst (executeSPARQLQuery remote q w) = JArr []"
  using assms by (simp add: executeSPARQLQuery_def Let_def ok_def and_then_def)

lemma searchLOV_missing_results:
  assumes "trim term \<noteq> []"
      and "remote (SearchRequest term) = Responded \<lparr>status = 200, body = Some (JObj [])\<rparr>"
  shows "fst (searchLOV remote term w) = JArr []"
  using assms by (simp add: searchLOV_def Let_def ok_def and_then_def js_or_def)

text \<open>
  Claim C9 fails on the code: when the graph endpoint answers 200 with the JSON body
  \<^verbatim>\<open>{"results": {}}\<close>, \<^verbatim>\<open>executeSPARQLQuery\<close> returns \<^verbatim>\<open>undefined\<close>, not the empty list,
  and logs nothing; the fetcher that called it then throws on \<^verbatim>\<open>results.forEach\<close>.
\<close>

theorem executeSPARQLQuery_missing_bindings:
  "executeSPARQLQuery missing_bindings_remote q w
     = (Undefined, w\<lparr>requests := requests w @ [SparqlRequest q]\<rparr>)
   \<and> fst (getAdoptionConvergenceData missing_bindings_remote [JStr ''A''] w) = Inl TypeError"
  by (simp add: missing_bindings_remote_def example_defs pipeline_defs)

text \<open>
  Claim C10. When the \<^verbatim>\<open>try\<close> block of \<^verbatim>\<open>performSearch\<close> throws, the stored result list
  is the one from before the call, the error is the message
  \<^verbatim>\<open>Search failed. Please try again.\<close> and the loading flag is false.
\<close>

lemma search_steps_blank: "trim term = [] \<Longrightarrow> search_steps remote term w = (Inr [], w)"
  by (simp add: search_steps_def searchLOV_def)

theorem failure_keeps_results:
  assumes "fst (search_steps remote term w) = Inl e"
  shows "searchResults (fst (performSearch remote term (ui, w))) = searchResults ui
       \<and> error (fst (performSearch remote term (ui, w))) = Some ''Search failed. Please try again.''
       \<and> loading (fst (performSearch remote term (ui, w))) = False"
proof -
  have "trim term \<noteq> []" using assms search_steps_blank[of "term" remote w] by auto
  then show ?thesis
    using assms by (cases "search_steps remote term w") (simp add: performSearch_def Let_def)
qed


theorem failure_keeps_results_witness:
  "fst (search_steps missing_bindings_remote ''x'' quiet) = Inl TypeError
   \<and> searchResults (fst (performSearch missing_bindings_remote ''x'' (shown, quiet)))
       = searchResults shown
   \<and> error (fst (performSearch missing_bindings_remote ''x'' (shown, quiet)))
       = Some ''Search failed. Please try again.''
   \<and> loading (fst (performSearch missing_bindings_remote ''x'' (shown, quiet))) = False"
proof -
  have e: "fst (search_steps missing_bindings_remote ''x'' quiet) = Inl TypeError"
    by (simp add: missing_bindings_steps)
  from failure_keeps_results[OF e, of shown] e show ?thesis by blast
qed

subsection \<open>Merging\<close>

lemma score_total: "readable a \<Longrightarrow> \<exists>s. calculateConnectivityScore a d = Inr s"
  by (simp add: readable_def calculateConnectivityScore_def parseInt_def ToString_def and_then_def Let_def)

lemma default_score: "calculateConnectivityScore default_adoption default_design = Inr (Num 0)"
  by (simp add: default_adoption_def default_design_def calculateConnectivityScore_def parseInt_def
      ToString_def and_then_def parseInt_string_def is_white_space_def is_radix_digit_def
      digit_value_def digits_value_def or_zero_def Let_def)

lemma readable_default: "readable default_adoption"
  by (simp add: readable_def default_adoption_def)

lemma entry_key: "is_entry result \<Longrightarrow> and_then (get_prop result ''uri'') ToString = Inr (uri_key result)"
proof (cases result)
  case (JObj fs)
  assume e: "is_entry result"
  show ?thesis
  proof (cases "map_of fs ''uri''")
    case None
    then show ?thesis using JObj by (simp add: uri_key_def and_then_def ToString_def)
  next
    case (Some v)
    then show ?thesis using JObj e
      by (cases v) (simp_all add: is_entry_def uri_key_def and_then_def ToString_def)
  qed
qed (simp_all add: is_entry_def)

lemma enhance_keeps_entry: "enhance am dm result = Inr m \<Longrightarrow> entry m = result"
  by (auto simp: enhance_def and_then_def Let_def split: sum.splits)

lemma map_enhance_entries: "map_exn (enhance am dm) rows = Inr merged \<Longrightarrow> map entry merged = rows"
  by (induction rows arbitrary: merged)
     (auto simp: and_then_def enhance_keeps_entry split: sum.splits)

text \<open>
  Claim C3 fails on the code. For the entry \<^verbatim>\<open>{"uri": "constructor"}\<close> and two empty
  mappings \<^verbatim>\<open>{}\<close>, the uri is absent from both mappings, yet \<^verbatim>\<open>adoptionData["constructor"]\<close>
  and \<^verbatim>\<open>designData["constructor"]\<close> are the function inherited from \<^verbatim>\<open>Object.prototype\<close>,
  which is truthy, so that \<^verbatim>\<open>|| {defaults}\<close> is not taken: the merged record carries that
  function as \<^verbatim>\<open>adoptionData\<close> and as \<^verbatim>\<open>designData\<close>, and its \<^verbatim>\<open>reusedByVocabularies\<close>
  is \<^verbatim>\<open>undefined\<close>, not \<^verbatim>\<open>"0"\<close>. The same happens in a run of the whole pipeline whose
  keyword search returns that entry. The score is 0 all the same.
\<close>

theorem inherited_key_merge:
  "map_exn (enhance empty_dict empty_dict) [row ''constructor'']
     = Inr [\<lparr>entry = row ''constructor'', adoptionData = Builtin ''constructor'',
             designData = Builtin ''constructor'', connectivityScore = Num 0\<rparr>]
   \<and> reusedByVocabularies (adoption_properties (Builtin ''constructor'')) = Undefined
   \<and> searchResults (fst (performSearch inherited_key_remote ''x'' (idle, quiet)))
     = [\<lparr>entry = row ''constructor'', adoptionData = Builtin ''constructor'',
         designData = Builtin ''constructor'', connectivityScore = Num 0\<rparr>]"
  by (simp add: inherited_key_remote_def idle_def example_defs pipeline_defs)

text \<open>
  The part of claim C3 that the code does: when no uri is the name of a member of
  \<^verbatim>\<open>Object.prototype\<close> and neither mapping has had its prototype replaced, the merge step
  returns one merged record per entry, for the same entries in the same order; a record
  whose key is absent from a mapping carries that mapping's default; and a record with
  both defaults has \<^verbatim>\<open>connectivityScore\<close> 0.
\<close>

lemma plain_key_get:
  assumes "proto d = None" and "key \<notin> set (''__proto__'' # object_prototype_names)"
  shows "or_default t (dict_get props d key) defaults
           = Metrics (case own d key of Some r \<Rightarrow> r | None \<Rightarrow> defaults)"
  using assms by (auto simp: dict_get_def or_default_def split: option.splits)

lemma enhance_entry:
  assumes "is_entry result" and "\<forall>k a. own adoption_map k = Some a \<longrightarrow> readable a"
      and "proto adoption_map = None" and "proto design_map = None"
      and "uri_key result \<notin> set (''__proto__'' # object_prototype_names)"
  shows "\<exists>m. enhance adoption_map design_map result = Inr m \<and> entry m = result
     \<and> adoptionData m
         = Metrics (case own adoption_map (uri_key result) of Some a \<Rightarrow> a | None \<Rightarrow> default_adoption)
     \<and> designData m
         = Metrics (case own design_map (uri_key result) of Some d \<Rightarrow> d | None \<Rightarrow> default_design)
     \<and> calculateConnectivityScore (adoption_properties (adoptionData m))
           (design_properties (designData m)) = Inr (connectivityScore m)"
proof -
  let ?a = "case own adoption_map (uri_key result) of Some a \<Rightarrow> a | None \<Rightarrow> default_adoption"
  let ?d = "case own design_map (uri_key result) of Some d \<Rightarrow> d | None \<Rightarrow> default_design"
  have "readable ?a" using assms(2) readable_default by (auto split: option.splits)
  then obtain s where s: "calculateConnectivityScore ?a ?d = Inr s" using score_total by blast
  have k: "and_then (get_prop result ''uri'') (\<lambda>uri. and_then (ToString uri) f)
            = f (uri_key result)" for f :: "string \<Rightarrow> exn + ranked_entry"
    using entry_key[OF assms(1)] by (auto simp: and_then_def split: sum.splits)
  show ?thesis
    unfolding enhance_def k Let_def plain_key_get[OF assms(3,5)] plain_key_get[OF assms(4,5)]
    using s by (simp add: and_then_def adoption_properties_def design_properties_def)
qed

lemma merge_step:
  assumes "list_all is_entry rows" and "\<forall>k a. own adoption_map k = Some a \<longrightarrow> readable a"
      and "proto adoption_map = None" and "proto design_map = None"
      and "\<forall>r\<in>set rows. uri_key r \<notin> set (''__proto__'' # object_prototype_names)"
  shows "\<exists>merged. map_exn (enhance adoption_map design_map) rows = Inr merged
     \<and> map entry merged = rows
     \<and> (\<forall>m\<in>set merged.
          (own adoption_map (uri_key (entry m)) = None
             \<longrightarrow> adoptionData m = Metrics default_adoption)
        \<and> (own design_map (uri_key (entry m)) = None
             \<longrightarrow> designData m = Metrics default_design)
        \<and> (adoptionData m = Metrics default_adoption \<and> designData m = Metrics default_design
             \<longrightarrow> connectivityScore m = Num 0))"
  using assms(1,5)
proof (induction rows)
  case Nil
  then show ?case by simp
next
  case (Cons result rows)
  then obtain merged where m: "map_exn (enhance adoption_map design_map) rows = Inr merged"
     "map entry merged = rows"
     "\<forall>m\<in>set merged.
          (own adoption_map (uri_key (entry m)) = None
             \<longrightarrow> adoptionData m = Metrics default_adoption)
        \<and> (own design_map (uri_key (entry m)) = None
             \<longrightarrow> designData m = Metrics default_design)
        \<and> (adoptionData m = Metrics default_adoption \<and> designData m = Metrics default_design
             \<longrightarrow> connectivityScore m = Num 0)"
    by auto
  from Cons.prems have r: "is_entry result"
    "uri_key result \<notin> set (''__proto__'' # object_prototype_names)" by simp_all
  from enhance_entry[OF r(1) assms(2,3,4) r(2)] obtain x where x:
    "enhance adoption_map design_map result = Inr x" "entry x = result"
    "adoptionData x
       = Metrics (case own adoption_map (uri_key result) of Some a \<Rightarrow> a | None \<Rightarrow> default_adoption)"
    "designData x
       = Metrics (case own design_map (uri_key result) of Some d \<Rightarrow> d | None \<Rightarrow> default_design)"
    "calculateConnectivityScore (adoption_properties (adoptionData x))
           (design_properties (designData x)) = Inr (connectivityScore x)"
    by blast
  have "map_exn (enhance adoption_map design_map) (result # rows) = Inr (x # merged)"
    using x(1) m(1) by (simp add: and_then_def)
  moreover have "map entry (x # merged) = result # rows" using x(2) m(2) by simp
  moreover have "(own adoption_map (uri_key (entry x)) = None
             \<longrightarrow> adoptionData x = Metrics default_adoption)
        \<and> (own design_map (uri_key (entry x)) = None
             \<longrightarrow> designData x = Metrics default_design)
        \<and> (adoptionData x = Metrics default_adoption \<and> designData x = Metrics default_design
             \<longrightarrow> connectivityScore x = Num 0)"
    using x default_score by (auto simp: adoption_properties_def design_properties_def)
  ultimately show ?case using m(3) by auto
qed

lemma example_keys:
  "uri_key (row ''A'') = ''A''" "uri_key (JObj []) = ''undefined''"
  by (simp_all add: uri_key_def row_def and_then_def ToString_def)

lemma merge_step_example:
  "map_exn (enhance example_adoption_map empty_dict) [row ''A'', JObj []]
     = Inr [\<lparr>entry = row ''A'',
             adoptionData = Metrics \<lparr>reusedByVocabularies = JStr ''12'',
               reusedByDatasets = JStr ''3'', occurrencesInDatasets = JStr ''4500''\<rparr>,
             designData = Metrics default_design,
             connectivityScore = Num (spec_score 0 0 0 0 0 0 12 3 4500)\<rparr>,
            unranked (JObj [])]"
proof -
  have s: "calculateConnectivityScore
     \<lparr>reusedByVocabularies = JStr ''12'', reusedByDatasets = JStr ''3'',
      occurrencesInDatasets = JStr ''4500''\<rparr> default_design
     = Inr (Num (spec_score 0 0 0 0 0 0 12 3 4500))"
    using score_nonneg_numbers[of _ 12 3 4500 default_design 0 0 0 0 0 0]
    by (simp add: adoption_number_eval default_design_def)
  show ?thesis
    by (simp add: example_adoption_map_def enhance_def row_def and_then_def ToString_def
        dict_get_def dict_set_def empty_dict_def or_default_def object_prototype_names_def
        adoption_properties_def design_properties_def unranked_def s default_score Let_def)
qed

subsection \<open>Ranking\<close>

lemma by_score_positive:
  "js_lt (Num 0) (by_score x y) = js_lt (connectivityScore x) (connectivityScore y)"
  unfolding by_score_def by (cases "connectivityScore x"; cases "connectivityScore y") auto

lemma set_sort_insert: "set (sort_insert cmp x ys) = insert x (set ys)"
  by (induction ys) auto

lemma set_array_sort: "set (array_sort cmp xs) = set xs"
  by (induction xs) (auto simp: set_sort_insert)

lemma length_sort_insert: "length (sort_insert cmp x ys) = Suc (length ys)"
  by (induction ys) auto

lemma length_array_sort: "length (array_sort cmp xs) = length xs"
  by (induction xs) (auto simp: length_sort_insert)

lemma js_le_trans: "js_le a b \<Longrightarrow> js_le b c \<Longrightarrow> js_le a c"
  by (cases a; cases b; cases c) auto

lemma js_le_total: "a \<noteq> NaN \<Longrightarrow> b \<noteq> NaN \<Longrightarrow> \<not> js_lt a b \<Longrightarrow> js_le b a"
  by (cases a; cases b) auto

lemma js_lt_le: "js_lt a b \<Longrightarrow> js_le a b"
  by (cases a; cases b) auto

lemma descending_insert:
  assumes "descending ys" "connectivityScore x \<noteq> NaN" "\<forall>y\<in>set ys. connectivityScore y \<noteq> NaN"
  shows "descending (sort_insert by_score x ys)"
  using assms
proof (induction ys)
  case Nil
  then show ?case by (simp add: descending_def)
next
  case (Cons y ys)
  show ?case
  proof (cases "js_lt (connectivityScore x) (connectivityScore y)")
    case True
    have "descending (sort_insert by_score x ys)"
      using Cons by (simp add: descending_def)
    moreover have "\<forall>z\<in>set (sort_insert by_score x ys). js_le (connectivityScore z) (connectivityScore y)"
      using Cons.prems(1) True by (auto simp: set_sort_insert descending_def js_lt_le)
    ultimately show ?thesis using True
      by (simp add: by_score_positive descending_def)
  next
    case False
    then have xy: "js_le (connectivityScore y) (connectivityScore x)"
      using Cons.prems by (simp add: js_le_total)
    have "\<forall>z\<in>set ys. js_le (connectivityScore z) (connectivityScore x)"
      using Cons.prems(1) xy by (auto simp: descending_def intro: js_le_trans)
    then show ?thesis using False xy Cons.prems(1)
      by (simp add: by_score_positive descending_def)
  qed
qed

lemma descending_sort:
  "\<forall>x\<in>set xs. connectivityScore x \<noteq> NaN \<Longrightarrow> descending (array_sort by_score xs)"
proof (induction xs)
  case Nil
  then show ?case by (simp add: descending_def)
next
  case (Cons x xs)
  then show ?case by (simp add: descending_insert set_array_sort)
qed

lemma js_lt_neq: "js_lt a b \<Longrightarrow> a \<noteq> b"
  by (cases a; cases b) auto

lemma filter_sort_insert_other:
  "connectivityScore x \<noteq> v \<Longrightarrow>
   filter (\<lambda>r. connectivityScore r = v) (sort_insert by_score x ys)
     = filter (\<lambda>r. connectivityScore r = v) ys"
  by (induction ys) auto

lemma filter_sort_insert_same:
  "filter (\<lambda>r. connectivityScore r = connectivityScore x) (sort_insert by_score x ys)
     = x # filter (\<lambda>r. connectivityScore r = connectivityScore x) ys"
  by (induction ys) (auto simp: by_score_positive dest: js_lt_neq)

lemma sort_stable:
  "filter (\<lambda>r. connectivityScore r = v) (array_sort by_score xs)
     = filter (\<lambda>r. connectivityScore r = v) xs"
proof (induction xs)
  case Nil
  then show ?case by simp
next
  case (Cons x xs)
  then show ?case
    by (cases "connectivityScore x = v")
       (auto simp: filter_sort_insert_other filter_sort_insert_same)
qed

lemma search_steps_cases:
  assumes "search_steps remote term w = (Inr results, w')"
      and "fst (searchLOV remote term w) = JArr rows"
  shows "\<exists>merged. results = array_sort by_score merged \<and> map entry merged = rows"
proof (cases "rows = []")
  case True
  then show ?thesis using assms
    by (cases "searchLOV remote term w") (auto simp: search_steps_def)
next
  case False
  then show ?thesis using assms
    by (cases "searchLOV remote term w")
       (auto simp: search_steps_def the_array_def and_then_def map_enhance_entries
             split: sum.splits prod.splits if_splits)
qed

lemma performSearch_exposes:
  assumes "search_steps remote term w = (Inr results, w')"
  shows "searchResults (fst (performSearch remote term (ui, w))) = results"
proof (cases "trim term = []")
  case True
  then have "search_steps remote term w = (Inr [], w)"
    by (simp add: search_steps_def searchLOV_def)
  then show ?thesis using assms True by (simp add: performSearch_def)
next
  case False
  then show ?thesis using assms by (simp add: performSearch_def Let_def)
qed

text \<open>
  The part of claim C2 that the code does: for every run of the pipeline whose \<^verbatim>\<open>try\<close>
  block completes on the rows of the keyword search, and in which no record's
  \<^verbatim>\<open>connectivityScore\<close> is \<^verbatim>\<open>NaN\<close>, the list exposed by \<^verbatim>\<open>performSearch\<close> is in
  non-increasing order of \<^verbatim>\<open>connectivityScore\<close>, and the records of any one score stand
  in the order in which the keyword search returned their rows; the exposed list holds
  the merged records, one for each row.
\<close>

lemma ranking_sorted_stable:
  assumes "search_steps remote term w = (Inr results, w')"
      and "fst (searchLOV remote term w) = JArr rows"
      and "\<forall>r\<in>set results. connectivityScore r \<noteq> NaN"
  shows "searchResults (fst (performSearch remote term (ui, w))) = results
       \<and> descending results
       \<and> (\<exists>merged. map entry merged = rows
            \<and> set results = set merged \<and> length results = length merged
            \<and> (\<forall>v. filter (\<lambda>r. connectivityScore r = v) results
                    = filter (\<lambda>r. connectivityScore r = v) merged))"
proof -
  from search_steps_cases[OF assms(1,2)] obtain merged where
    m: "results = array_sort by_score merged" "map entry merged = rows" by blast
  have "\<forall>x\<in>set merged. connectivityScore x \<noteq> NaN"
    using assms(3) by (simp add: m(1) set_array_sort)
  then have "descending results" unfolding m(1) by (rule descending_sort)
  moreover have "set results = set merged" "length results = length merged"
    by (simp_all add: m(1) set_array_sort length_array_sort)
  ultimately show ?thesis
    using performSearch_exposes[OF assms(1)] m sort_stable by blast
qed

lemma ranking_sorted_stable_example:
  "search_steps ranking_remote ''x'' quiet = (Inr ranking_expected, ranking_world)
   \<and> fst (searchLOV ranking_remote ''x'' quiet) = JArr [row ''A'', row ''B'', row ''C'']
   \<and> searchResults (fst (performSearch ranking_remote ''x'' (shown, quiet))) = ranking_expected
   \<and> descending ranking_expected
   \<and> (\<exists>merged. map entry merged = [row ''A'', row ''B'', row ''C'']
        \<and> set ranking_expected = set merged \<and> length ranking_expected = length merged
        \<and> (\<forall>v. filter (\<lambda>r. connectivityScore r = v) ranking_expected
                = filter (\<lambda>r. connectivityScore r = v) merged))"
proof -
  have n: "\<forall>r\<in>set ranking_expected. connectivityScore r \<noteq> NaN"
    by (simp add: ranking_expected_def unranked_def)
  from ranking_sorted_stable[OF ranking_example ranking_example_search n, of shown]
    ranking_example ranking_example_search
  show ?thesis by blast
qed

text \<open>
  Claim C2 fails on the code. When the adoption query reports \<^verbatim>\<open>reusedByDatasets = "-5"\<close>
  for the second of three rows, \<^verbatim>\<open>|| 0\<close> lets the negative number through, \<^verbatim>\<open>Math.log\<close> of
  \<open>-4\<close> makes that record's score \<^verbatim>\<open>NaN\<close>, every comparison with it counts as a tie, and
  the exposed list keeps the search order: the first record has score 0 and the third has
  the greater score \<open>ln 2 / 25\<close>. The comparator is consistent on any two of the three
  records but not on all three, so another engine may order them otherwise; no order of
  a list that holds a \<^verbatim>\<open>NaN\<close> score is non-increasing.
\<close>

theorem negative_metric_ranking:
  "map entry (searchResults (fst (performSearch negative_remote ''x'' (idle, quiet))))
     = [row ''A'', row ''B'', row ''C'']
   \<and> map connectivityScore (searchResults (fst (performSearch negative_remote ''x'' (idle, quiet))))
     = [Num 0, NaN, Num (ln 2 / 25)]
   \<and> (0 :: real) < ln 2 / 25
   \<and> \<not> descending (searchResults (fst (performSearch negative_remote ''x'' (idle, quiet))))"
  by (simp add: negative_remote_def idle_def example_defs pipeline_defs ln2_small
      descending_def)

end
